theory Spec2Isabelle
  imports Main
begin

section \<open>Container image asset publishing: \<open>packages/aws-cdk/lib/docker.ts\<close>\<close>

text \<open>
  The development embeds \<open>prepareContainerAsset\<close> and \<open>dockerLogin\<close>. The function
  talks to three kinds of collaborators that are not part of the file: the methods of
  \<open>ToolkitInfo\<close> (registry), \<open>shell\<close> from \<open>./os\<close> (command execution) and Node's
  \<open>path\<close> module. They are parameters of the model. Every call to a registry method or
  to \<open>shell\<close> is a transition on an abstract world state \<open>'w\<close> and is appended to a
  trace, so that "which calls were made, in which order, and which one failed" is a value
  the theorems can talk about. The logging calls \<open>debug\<close> and \<open>print\<close> have no influence
  on control flow or result and are left out.
\<close>

subsection \<open>Values\<close>

text \<open>
  A thrown JavaScript \<open>Error\<close> object: its \<open>name\<close>, its \<open>message\<close> and the optional
  \<open>code\<close> property that Node sets on failed system calls (\<open>'ENOENT'\<close> when an
  executable is missing). \<open>new Error(msg)\<close> has name \<open>Error\<close> and no code.
\<close>

datatype jserror = JsError (name: string) (message: string) (code: "string option")

definition newError :: "string \<Rightarrow> jserror" where
  "newError msg = JsError ''Error'' msg None"

text \<open>
  \<open>ContainerImageAssetMetadataEntry\<close> (declared in \<open>@aws-cdk/cx-api\<close>): optional
  properties are options, \<open>None\<close> standing for \<open>undefined\<close>. \<open>buildArgs\<close> is a JavaScript
  object with string values: it is represented by its properties in the order in which
  they were inserted (for a parsed manifest, the order in which they are written), each
  key occurring once. The function itself applies \<open>Object.entries\<close> to it. The constant
  \<open>packaging\<close> tag is not read by the function and is omitted. The properties \<open>id\<close>
  and \<open>file\<close> carry a suffix, since both words are taken in Isabelle.
\<close>

record ContainerImageAssetMetadataEntry =
  id_asset :: string
  path :: string
  sourceHash :: string
  repositoryName :: "string option"
  imageTag :: "string option"
  imageNameParameter :: "string option"
  buildArgs :: "(string \<times> string) list option"
  target :: "string option"
  file_asset :: "string option"

text \<open>The value \<open>prepareEcrRepository\<close> resolves to.\<close>

record EcrRepositoryInfo =
  ecr_repositoryUri :: string
  ecr_repositoryName :: string

record EcrCredentials =
  username :: string
  password :: string
  endpoint :: string

text \<open>\<open>CloudFormation.Parameter\<close>: all three properties are optional.\<close>

record Parameter =
  ParameterKey :: "string option"
  ParameterValue :: "string option"
  UsePreviousValue :: "bool option"

text \<open>
  JavaScript truthiness of an optional string, as in \<open>if (asset.target)\<close> and
  \<open>!asset.imageNameParameter\<close>: \<open>undefined\<close> and the empty string are falsy.
  This is the test the function uses wherever it asks whether a property is present,
  except for the tag default, which uses \<open>??\<close> and so only replaces \<open>undefined\<close>.
\<close>

definition truthy :: "string option \<Rightarrow> bool" where
  "truthy x = (case x of None \<Rightarrow> False | Some s \<Rightarrow> s \<noteq> [])"

subsection \<open>Collaborators, world state and trace\<close>

datatype call =
    PrepareEcrRepository ContainerImageAssetMetadataEntry
  | CheckEcrImage string string
  | GetEcrCredentials
  | Shell "string list"

text \<open>One event per collaborator call: the call and, if it was rejected, the error.\<close>

datatype event = Event (ev_call: call) (ev_error: "jserror option")

record 'w ToolkitInfo =
  prepareEcrRepository ::
    "ContainerImageAssetMetadataEntry \<Rightarrow> 'w \<Rightarrow> (jserror + EcrRepositoryInfo) \<times> 'w"
  checkEcrImage :: "string \<Rightarrow> string \<Rightarrow> 'w \<Rightarrow> (jserror + bool) \<times> 'w"
  getEcrCredentials :: "'w \<Rightarrow> (jserror + EcrCredentials) \<times> 'w"

text \<open>The imported modules: \<open>shell\<close> of \<open>./os\<close>, \<open>isAbsolute\<close> and \<open>join\<close> of \<open>path\<close>.\<close>

record 'w Host =
  shell :: "string list \<Rightarrow> 'w \<Rightarrow> (jserror + string) \<times> 'w"
  path_isAbsolute :: "string \<Rightarrow> bool"
  path_join :: "string \<Rightarrow> string \<Rightarrow> string"

text \<open>
  An asynchronous computation: from the world and the trace so far to either a thrown
  error or a value, with the new world and trace.
\<close>

type_synonym ('w, 'a) io = "'w \<times> event list \<Rightarrow> (jserror + 'a) \<times> ('w \<times> event list)"

definition return_io :: "'a \<Rightarrow> ('w, 'a) io" where
  "return_io a = (\<lambda>s. (Inr a, s))"

definition throw_io :: "jserror \<Rightarrow> ('w, 'a) io" where
  "throw_io e = (\<lambda>s. (Inl e, s))"

text \<open>\<open>await\<close> followed by the rest of the block: an error skips the rest.\<close>

definition bind_io :: "('w, 'a) io \<Rightarrow> ('a \<Rightarrow> ('w, 'b) io) \<Rightarrow> ('w, 'b) io" where
  "bind_io m f = (\<lambda>s. case m s of (Inl e, s') \<Rightarrow> (Inl e, s') | (Inr a, s') \<Rightarrow> f a s')"

text \<open>\<open>try { m } catch (e) { h e }\<close>.\<close>

definition catch_io :: "('w, 'a) io \<Rightarrow> (jserror \<Rightarrow> ('w, 'a) io) \<Rightarrow> ('w, 'a) io" where
  "catch_io m h = (\<lambda>s. case m s of (Inl e, s') \<Rightarrow> h e s' | (Inr a, s') \<Rightarrow> (Inr a, s'))"

text \<open>Performing a collaborator call: run it on the world, log the event.\<close>

definition perform :: "call \<Rightarrow> ('w \<Rightarrow> (jserror + 'a) \<times> 'w) \<Rightarrow> ('w, 'a) io" where
  "perform c f = (\<lambda>(w, tr). case f w of
      (Inl e, w') \<Rightarrow> (Inl e, (w', tr @ [Event c (Some e)]))
    | (Inr a, w') \<Rightarrow> (Inr a, (w', tr @ [Event c None])))"

definition call_shell :: "'w Host \<Rightarrow> string list \<Rightarrow> ('w, string) io" where
  "call_shell H command = perform (Shell command) (shell H command)"

subsection \<open>Operations of the JavaScript library\<close>

text \<open>\<open>String.prototype.startsWith\<close>.\<close>

definition startsWith :: "string \<Rightarrow> string \<Rightarrow> bool" where
  "startsWith s searchString = (take (length searchString) s = searchString)"

text \<open>
  \<open>String.prototype.trim\<close>: white space and line terminators are removed at both ends.
  Of the characters ECMAScript lists, those that a \<open>char\<close> can hold are tab, line feed,
  vertical tab, form feed, carriage return, space and no-break space.
\<close>

definition isWhiteSpace :: "char \<Rightarrow> bool" where
  "isWhiteSpace c = (c \<in> set [CHR 0x09, CHR 0x0A, CHR 0x0B, CHR 0x0C, CHR 0x0D, CHR 0x20, CHR 0xA0])"

definition trim :: "string \<Rightarrow> string" where
  "trim s = rev (dropWhile isWhiteSpace (rev (dropWhile isWhiteSpace s)))"

text \<open>
  \<open>String.prototype.split\<close> with a one-character separator: the empty string splits
  into one empty piece, a trailing separator leaves an empty last piece.
\<close>

fun split :: "char \<Rightarrow> string \<Rightarrow> string list" where
  "split sep [] = [[]]"
| "split sep (c # cs) =
     (if c = sep then [] # split sep cs
      else (case split sep cs of [] \<Rightarrow> [[c]] | piece # pieces \<Rightarrow> (c # piece) # pieces))"

text \<open>\<open>String.prototype.indexOf\<close>: the least position at which the pattern occurs.\<close>

fun indexOf :: "string \<Rightarrow> string \<Rightarrow> nat option" where
  "indexOf [] searchString = (if searchString = [] then Some 0 else None)"
| "indexOf (c # cs) searchString =
     (if startsWith (c # cs) searchString then Some 0
      else map_option Suc (indexOf cs searchString))"

text \<open>
  The abstract operation \<open>GetSubstitution\<close> of ECMAScript for a string pattern (no
  capture groups): in the replacement text \<open>$$\<close> stands for a dollar sign, \<open>$&\<close> for
  the matched text, \<open>$`\<close> for the text before the match and \<open>$'\<close> for the text after
  it; every other character, and a dollar sign followed by anything else, is copied.
\<close>

fun getSubstitution :: "string \<Rightarrow> string \<Rightarrow> nat \<Rightarrow> string \<Rightarrow> string" where
  "getSubstitution matched str position [] = []"
| "getSubstitution matched str position [c] = [c]"
| "getSubstitution matched str position (c # d # r) =
     (if c = CHR 0x24 \<and> d = CHR 0x24 then CHR 0x24 # getSubstitution matched str position r
      else if c = CHR 0x24 \<and> d = CHR 0x26 then matched @ getSubstitution matched str position r
      else if c = CHR 0x24 \<and> d = CHR 0x60 then
        take position str @ getSubstitution matched str position r
      else if c = CHR 0x24 \<and> d = CHR 0x27 then
        drop (position + length matched) str @ getSubstitution matched str position r
      else c # getSubstitution matched str position (d # r))"

text \<open>
  \<open>String.prototype.replace\<close> with a string pattern and a string replacement: only the
  first occurrence is replaced, and the replacement text goes through \<open>GetSubstitution\<close>.
\<close>

definition replace :: "string \<Rightarrow> string \<Rightarrow> string \<Rightarrow> string" where
  "replace str searchValue replaceValue =
     (case indexOf str searchValue of
        None \<Rightarrow> str
      | Some position \<Rightarrow>
          take position str
          @ getSubstitution searchValue str position replaceValue
          @ drop (position + length searchValue) str)"

text \<open>
  \<open>Object.entries\<close> on an object with string keys lists the properties in the order of
  \<open>OrdinaryOwnPropertyKeys\<close>: first the keys that are array indices, in ascending
  numeric order, then all other keys in the order of their insertion. A key is an array
  index when it is the canonical decimal form (digits only, no leading zero except for
  \<open>0\<close> itself) of an integer from 0 to \<open>2^32 - 2\<close>.
\<close>

definition isDigit :: "char \<Rightarrow> bool" where
  "isDigit c = (c \<in> set ''0123456789'')"

definition digitValue :: "char \<Rightarrow> nat" where
  "digitValue c = length (takeWhile (\<lambda>d. d \<noteq> c) ''0123456789'')"

definition toNumber :: "string \<Rightarrow> nat" where
  "toNumber s = foldl (\<lambda>n c. 10 * n + digitValue c) 0 s"

definition isArrayIndex :: "string \<Rightarrow> bool" where
  "isArrayIndex key =
     (key \<noteq> [] \<and> list_all isDigit key \<and> (key = ''0'' \<or> hd key \<noteq> CHR ''0'')
      \<and> toNumber key \<le> 4294967294)"

definition Object_entries :: "(string \<times> string) list \<Rightarrow> (string \<times> string) list" where
  "Object_entries properties =
     sort_key (\<lambda>(k, v). toNumber k) (filter (\<lambda>(k, v). isArrayIndex k) properties)
     @ filter (\<lambda>(k, v). \<not> isArrayIndex k) properties"

subsection \<open>The errors the function creates itself\<close>

text \<open>Line 18. The message contains double quotes (character \<open>0x22\<close>).\<close>

definition configurationError :: jserror where
  "configurationError = newError
     ([CHR 0x22] @ ''repositoryName'' @ [CHR 0x22] @ '' and '' @ [CHR 0x22] @ ''imageTag''
      @ [CHR 0x22] @ '' are both required if '' @ [CHR 0x22] @ ''imageParameterName''
      @ [CHR 0x22] @ '' is omitted'')"

text \<open>Line 84. The message ends with a line feed and the trimmed inspection output.\<close>

definition integrityError :: "string \<Rightarrow> string \<Rightarrow> jserror" where
  "integrityError requiredPrefix repoDigests = newError
     (''Unable to identify repository digest (none starts with '' @ requiredPrefix
      @ '') in:'' @ [CHR 0x0A] @ repoDigests)"

text \<open>Line 97.\<close>

definition environmentError :: jserror where
  "environmentError = newError
     (''Error building Docker image asset; you need to have Docker installed in order ''
      @ ''to be able to build image assets. Please install Docker and try again.'')"

subsection \<open>\<open>dockerLogin\<close> (lines 106 to 112)\<close>

definition dockerLogin :: "'w Host \<Rightarrow> 'w ToolkitInfo \<Rightarrow> ('w, string) io" where
  "dockerLogin H toolkitInfo =
     bind_io (perform GetEcrCredentials (getEcrCredentials toolkitInfo)) (\<lambda>credentials.
       call_shell H [''docker'', ''login'',
         ''--username'', username credentials,
         ''--password'', password credentials,
         endpoint credentials])"

subsection \<open>\<open>prepareContainerAsset\<close> (lines 11 to 101)\<close>

text \<open>
  The local constants of the function are definitions of their own, under the names the
  source gives them, so that statements about the commands can refer to them.
  Line 29: the build context, relative to the assembly directory unless absolute.
\<close>

definition contextPath :: "'w Host \<Rightarrow> string \<Rightarrow> ContainerImageAssetMetadataEntry \<Rightarrow> string" where
  "contextPath H assemblyDir asset =
     (if path_isAbsolute H (path asset) then path asset
      else path_join H assemblyDir (path asset))"

text \<open>Lines 47 and 48: \<open>asset.imageTag ?? 'latest'\<close> replaces only \<open>undefined\<close>.\<close>

definition imageUri :: "ContainerImageAssetMetadataEntry \<Rightarrow> EcrRepositoryInfo \<Rightarrow> string" where
  "imageUri asset ecr =
     (let imageTag' = (case imageTag asset of None \<Rightarrow> ''latest'' | Some t \<Rightarrow> t)
      in ecr_repositoryUri ecr @ '':'' @ imageTag')"

text \<open>
  Lines 50 to 65: the build command, with the two conditional \<open>push\<close> calls.
  \<open>asset.buildArgs || {}\<close> is the empty object when \<open>buildArgs\<close> is undefined.
\<close>

definition baseCommand ::
  "ContainerImageAssetMetadataEntry \<Rightarrow> EcrRepositoryInfo \<Rightarrow> string \<Rightarrow> string list" where
  "baseCommand asset ecr contextPath' =
     (let buildArgs' = concat (map (\<lambda>(k, v). [''--build-arg'', k @ ''='' @ v])
                         (Object_entries
                           (case buildArgs asset of None \<Rightarrow> [] | Some properties \<Rightarrow> properties)));
          baseCommand' = [''docker'', ''build''] @ buildArgs'
                           @ [''--tag'', imageUri asset ecr, contextPath'];
          baseCommand' = (if truthy (target asset)
                          then baseCommand' @ [''--target'', the (target asset)]
                          else baseCommand');
          baseCommand' = (if truthy (file_asset asset)
                          then baseCommand' @ [''--file'', the (file_asset asset)]
                          else baseCommand')
      in baseCommand')"

text \<open>
  Lines 50 to 93: what the \<open>try\<close> block does once the repository is resolved and the
  skip was not taken. It is a definition of its own because the source reaches it on two
  paths (the existence check was not made, or it answered \<open>false\<close>); the early
  \<open>return []\<close> of line 42 is the other branch in \<open>prepareContainerAsset\<close> below.
\<close>

definition buildAndPush ::
  "'w Host \<Rightarrow> ContainerImageAssetMetadataEntry \<Rightarrow> 'w ToolkitInfo \<Rightarrow> string
    \<Rightarrow> EcrRepositoryInfo \<Rightarrow> ('w, Parameter list) io" where
  "buildAndPush H asset toolkitInfo contextPath' ecr =
     bind_io (call_shell H (baseCommand asset ecr contextPath')) (\<lambda>_.
     bind_io (dockerLogin H toolkitInfo) (\<lambda>_.
     bind_io (call_shell H [''docker'', ''push'', imageUri asset ecr]) (\<lambda>_.
       if truthy (imageNameParameter asset) then
         bind_io (call_shell H [''docker'', ''image'', ''inspect'', imageUri asset ecr,
                    ''--format'', ''{{range .RepoDigests}}{{.}}|{{end}}'']) (\<lambda>out.
           let repoDigests = trim out;
               requiredPrefix = ecr_repositoryUri ecr @ ''@sha256:'';
               repoDigest = List.find (\<lambda>digest. startsWith digest requiredPrefix)
                              (split CHR ''|'' repoDigests)
           in
           if \<not> truthy repoDigest then throw_io (integrityError requiredPrefix repoDigests)
           else return_io
             [\<lparr>ParameterKey = imageNameParameter asset,
               ParameterValue = Some (replace (the repoDigest) (ecr_repositoryUri ecr)
                                        (ecr_repositoryName ecr)),
               UsePreviousValue = None\<rparr>])
       else return_io [])))"

definition prepareContainerAsset ::
  "'w Host \<Rightarrow> string \<Rightarrow> ContainerImageAssetMetadataEntry \<Rightarrow> 'w ToolkitInfo \<Rightarrow> bool
    \<Rightarrow> ('w, Parameter list) io" where
  "prepareContainerAsset H assemblyDir asset toolkitInfo reuse =
     (if \<not> truthy (imageNameParameter asset)
         \<and> (\<not> truthy (repositoryName asset) \<or> \<not> truthy (imageTag asset))
      then throw_io configurationError
      else if reuse then
        return_io [\<lparr>ParameterKey = imageNameParameter asset, ParameterValue = None,
                    UsePreviousValue = Some True\<rparr>]
      else
        catch_io
          (bind_io (perform (PrepareEcrRepository asset) (prepareEcrRepository toolkitInfo asset))
            (\<lambda>ecr.
              if truthy (repositoryName asset) \<and> truthy (imageTag asset) then
                bind_io (perform (CheckEcrImage (the (repositoryName asset)) (the (imageTag asset)))
                           (checkEcrImage toolkitInfo (the (repositoryName asset))
                              (the (imageTag asset))))
                  (\<lambda>exists. if exists then return_io []
                            else buildAndPush H asset toolkitInfo
                                   (contextPath H assemblyDir asset) ecr)
              else buildAndPush H asset toolkitInfo (contextPath H assemblyDir asset) ecr))
          (\<lambda>e. if code e = Some ''ENOENT'' then throw_io environmentError else throw_io e))"

subsection \<open>Observations on traces\<close>

text \<open>The argument vectors of the \<open>shell\<close> calls of a trace, in order.\<close>

fun shell_commands :: "event list \<Rightarrow> string list list" where
  "shell_commands [] = []"
| "shell_commands (Event (Shell command) outcome # evs) = command # shell_commands evs"
| "shell_commands (Event c outcome # evs) = shell_commands evs"

text \<open>
  The predicates used to reason about traces. A piece of trace is \<open>clean\<close> when none
  of its calls was rejected. \<open>outcome_ok r evs\<close> relates the outcome of a computation
  to the events it appended: a returned value goes with a clean piece; a thrown error
  goes with a clean piece (the function threw by itself) or with a clean piece followed
  by one rejected call that carries this very error. \<open>traced m\<close> says that \<open>m\<close> only
  appends to the trace and that outcome and appended events are related in this way.
\<close>

definition clean :: "event list \<Rightarrow> bool" where
  "clean evs = list_all (\<lambda>x. ev_error x = None) evs"

fun outcome_ok :: "(jserror + 'a) \<Rightarrow> event list \<Rightarrow> bool" where
  "outcome_ok (Inr a) evs = clean evs"
| "outcome_ok (Inl e) evs = (clean evs \<or> (\<exists>evs0 c. evs = evs0 @ [Event c (Some e)] \<and> clean evs0))"

definition traced :: "('w, 'a) io \<Rightarrow> bool" where
  "traced m = (\<forall>w tr r w' tr'. m (w, tr) = (r, (w', tr')) \<longrightarrow>
                 (\<exists>evs. tr' = tr @ evs \<and> outcome_ok r evs))"

text \<open>What the handler of lines 94 to 100 rethrows for a caught error.\<close>

definition handled :: "jserror \<Rightarrow> jserror" where
  "handled e = (if code e = Some ''ENOENT'' then environmentError else e)"

subsection \<open>Sample worlds\<close>

text \<open>
  A world that counts the collaborator calls made so far. With \<open>fails = Some (k, e)\<close>
  the call number \<open>k\<close> (counting from 0) is rejected with \<open>e\<close>; every other call
  succeeds. The registry resolves to \<open>ecr\<close> and answers the existence check with
  \<open>present\<close>; digest inspection prints \<open>digests\<close> and every other command prints
  nothing.
\<close>

definition sample_credentials :: EcrCredentials where
  "sample_credentials =
     \<lparr>username = ''user'', password = ''secret'', endpoint = ''https://registry''\<rparr>"

definition rejects :: "(nat \<times> jserror) option \<Rightarrow> nat \<Rightarrow> 'a \<Rightarrow> jserror + 'a" where
  "rejects fails w a = (case fails of None \<Rightarrow> Inr a
                        | Some (k, e) \<Rightarrow> if w = k then Inl e else Inr a)"

definition sample_toolkit ::
  "(nat \<times> jserror) option \<Rightarrow> EcrRepositoryInfo \<Rightarrow> bool \<Rightarrow> nat ToolkitInfo" where
  "sample_toolkit fails ecr present =
     \<lparr>prepareEcrRepository = (\<lambda>asset w. (rejects fails w ecr, w + 1)),
      checkEcrImage = (\<lambda>repo tag w. (rejects fails w present, w + 1)),
      getEcrCredentials = (\<lambda>w. (rejects fails w sample_credentials, w + 1))\<rparr>"

definition sample_host :: "(nat \<times> jserror) option \<Rightarrow> string \<Rightarrow> nat Host" where
  "sample_host fails digests =
     \<lparr>shell = (\<lambda>command w.
        (rejects fails w (if take 3 command = [''docker'', ''image'', ''inspect'']
                          then digests else []), w + 1)),
      path_isAbsolute = (\<lambda>p. startsWith p ''/''),
      path_join = (\<lambda>dir p. dir @ ''/'' @ p)\<rparr>"

text \<open>The repository and the inspection output of the specification's example.\<close>

definition sample_ecr :: EcrRepositoryInfo where
  "sample_ecr = \<lparr>ecr_repositoryUri = ''repoUri'', ecr_repositoryName = ''repositoryName''\<rparr>"

definition sample_digests :: string where
  "sample_digests = ''otherrepo@sha256:aaa|repoUri@sha256:bbb|'' @ [CHR 0x0A]"

text \<open>
  The asset, the stubbed repository and the error of the test
  "passes the correct target to docker build" in \<open>test/docker.test.ts\<close>.
\<close>

definition test_asset :: ContainerImageAssetMetadataEntry where
  "test_asset =
     \<lparr>id_asset = ''assetId'', path = ''/foo'', sourceHash = ''1234567890abcdef'',
      repositoryName = Some ''some-name'', imageTag = None,
      imageNameParameter = Some ''MyParameter'',
      buildArgs = Some [(''a'', ''b''), (''c'', ''d'')],
      target = Some ''a-target'', file_asset = None\<rparr>"

definition test_ecr :: EcrRepositoryInfo where
  "test_ecr = \<lparr>ecr_repositoryUri = ''uri'', ecr_repositoryName = ''name''\<rparr>"

definition stoptest :: jserror where
  "stoptest = JsError ''STOPTEST'' [] None"

text \<open>An asset in direct addressing, and one that satisfies both addressing modes.\<close>

definition direct_asset :: ContainerImageAssetMetadataEntry where
  "direct_asset =
     \<lparr>id_asset = ''assetId'', path = ''relative-to-assembly'', sourceHash = ''0123456789abcdef'',
      repositoryName = Some ''some-name'', imageTag = Some ''v1'',
      imageNameParameter = None, buildArgs = None,
      target = None, file_asset = Some ''Dockerfile.prod''\<rparr>"

definition both_asset :: ContainerImageAssetMetadataEntry where
  "both_asset = direct_asset\<lparr>imageNameParameter := Some ''MyParameter''\<rparr>"

text \<open>
  The asset of the test with build arguments \<open>{b: 'x', 2: 'y', 1: 'z'}\<close>, written in
  this order.
\<close>

definition numeric_keys_asset :: ContainerImageAssetMetadataEntry where
  "numeric_keys_asset =
     test_asset\<lparr>buildArgs := Some [(''b'', ''x''), (''2'', ''y''), (''1'', ''z'')]\<rparr>"

text \<open>The error Node raises when the executable to spawn does not exist.\<close>

definition enoent :: jserror where
  "enoent = JsError ''Error'' ''spawn docker ENOENT'' (Some ''ENOENT'')"

section \<open>Properties\<close>

lemmas model_defs = prepareContainerAsset_def buildAndPush_def dockerLogin_def call_shell_def
  perform_def bind_io_def catch_io_def return_io_def throw_io_def contextPath_def imageUri_def
  baseCommand_def truthy_def Let_def Object_entries_def isArrayIndex_def toNumber_def
  digitValue_def isDigit_def

lemmas sample_defs = sample_host_def sample_toolkit_def rejects_def sample_ecr_def
  sample_credentials_def sample_digests_def test_asset_def test_ecr_def direct_asset_def
  both_asset_def numeric_keys_asset_def stoptest_def enoent_def startsWith_def

subsection \<open>Running a computation\<close>

text \<open>
  What a call and a sequential composition do on a given world and trace.
\<close>

lemma perform_Inr: "f w = (Inr a, w') \<Longrightarrow> perform c f (w, tr) = (Inr a, (w', tr @ [Event c None]))"
  by (simp add: perform_def)

lemma perform_Inl: "f w = (Inl e, w') \<Longrightarrow> perform c f (w, tr) = (Inl e, (w', tr @ [Event c (Some e)]))"
  by (simp add: perform_def)

lemma bind_io_Inr: "m s = (Inr a, s') \<Longrightarrow> bind_io m f s = f a s'"
  by (simp add: bind_io_def)

lemma bind_io_Inl: "m s = (Inl e, s') \<Longrightarrow> bind_io m f s = (Inl e, s')"
  by (simp add: bind_io_def)

subsection \<open>Every computation of the function leaves a faithful trace\<close>

text \<open>
  \<open>traced m\<close>: the computation only appends to the trace; if it returns, no appended
  call was rejected; if it throws \<open>e\<close>, either no appended call was rejected (the
  function threw by itself) or exactly the last one was, with \<open>e\<close>. The property is
  preserved by every construct the function is built from.
\<close>

lemma clean_append: "clean (xs @ ys) = (clean xs \<and> clean ys)"
  by (simp add: clean_def)

lemma outcome_ok_prepend: "clean xs \<Longrightarrow> outcome_ok r ys \<Longrightarrow> outcome_ok r (xs @ ys)"
proof (cases r)
  case (Inl e)
  assume c: "clean xs" and ok: "outcome_ok r ys"
  from ok Inl have "clean ys \<or> (\<exists>evs0 c. ys = evs0 @ [Event c (Some e)] \<and> clean evs0)" by simp
  then show ?thesis
  proof
    assume "clean ys" with c Inl show ?thesis by (simp add: clean_append)
  next
    assume "\<exists>evs0 c. ys = evs0 @ [Event c (Some e)] \<and> clean evs0"
    then obtain evs0 c' where ys: "ys = evs0 @ [Event c' (Some e)]" and c0: "clean evs0" by blast
    have "xs @ ys = (xs @ evs0) @ [Event c' (Some e)]" using ys by simp
    moreover have "clean (xs @ evs0)" using c c0 by (simp add: clean_append)
    ultimately show ?thesis using Inl by (metis outcome_ok.simps(2))
  qed
next
  case (Inr a)
  assume "clean xs" "outcome_ok r ys"
  with Inr show ?thesis by (simp add: clean_append)
qed

named_theorems traced_intros

lemma traced_return [traced_intros]: "traced (return_io a)"
  by (simp add: traced_def return_io_def clean_def)

lemma traced_throw [traced_intros]: "traced (throw_io e)"
  by (simp add: traced_def throw_io_def clean_def)

lemma traced_perform [traced_intros]: "traced (perform c f)"
  unfolding traced_def
proof (intro allI impI)
  fix w tr r w' tr'
  assume run: "perform c f (w, tr) = (r, (w', tr'))"
  obtain r0 w0 where f: "f w = (r0, w0)" by (cases "f w")
  show "\<exists>evs. tr' = tr @ evs \<and> outcome_ok r evs"
  proof (cases r0)
    case (Inl e)
    with f run have r: "r = Inl e" and tr': "tr' = tr @ [Event c (Some e)]"
      by (simp_all add: perform_def)
    have "[Event c (Some e)] = [] @ [Event c (Some e)] \<and> clean []" by (simp add: clean_def)
    then have "\<exists>evs0 c'. [Event c (Some e)] = evs0 @ [Event c' (Some e)] \<and> clean evs0" by blast
    then have "outcome_ok r [Event c (Some e)]" using r by simp
    with tr' show ?thesis by blast
  next
    case (Inr a)
    with f run have "r = Inr a" "tr' = tr @ [Event c None]" by (simp_all add: perform_def)
    then show ?thesis by (simp add: clean_def)
  qed
qed

lemma traced_bind [traced_intros]:
  assumes m: "traced m" and f: "\<And>a. traced (f a)"
  shows "traced (bind_io m f)"
  unfolding traced_def
proof (intro allI impI)
  fix w tr r w' tr'
  assume run: "bind_io m f (w, tr) = (r, (w', tr'))"
  obtain r1 w1 tr1 where m1: "m (w, tr) = (r1, (w1, tr1))" by (metis prod.exhaust)
  with m obtain evs1 where tr1: "tr1 = tr @ evs1" and ok1: "outcome_ok r1 evs1"
    unfolding traced_def by blast
  show "\<exists>evs. tr' = tr @ evs \<and> outcome_ok r evs"
  proof (cases r1)
    case (Inl e)
    with m1 run have "r = Inl e" "tr' = tr1" by (simp_all add: bind_io_def)
    with tr1 ok1 Inl show ?thesis by auto
  next
    case (Inr a)
    with m1 run have "f a (w1, tr1) = (r, (w', tr'))" by (simp add: bind_io_def)
    with f obtain evs2 where tr2: "tr' = tr1 @ evs2" and ok2: "outcome_ok r evs2"
      unfolding traced_def by blast
    from ok1 Inr have "clean evs1" by simp
    then have "outcome_ok r (evs1 @ evs2)" using ok2 by (rule outcome_ok_prepend)
    moreover have "tr' = tr @ (evs1 @ evs2)" using tr1 tr2 by simp
    ultimately show ?thesis by blast
  qed
qed

lemma traced_if [traced_intros]:
  "(c \<Longrightarrow> traced a) \<Longrightarrow> (\<not> c \<Longrightarrow> traced b) \<Longrightarrow> traced (if c then a else b)"
  by simp

lemma traced_dockerLogin [traced_intros]: "traced (dockerLogin H toolkitInfo)"
  unfolding dockerLogin_def call_shell_def by (intro traced_intros)

lemma traced_buildAndPush [traced_intros]: "traced (buildAndPush H asset toolkitInfo ctx ecr)"
  unfolding buildAndPush_def call_shell_def Let_def by (intro traced_intros)

text \<open>
  The handler of lines 94 to 100 leaves world and trace alone and maps the error through
  \<open>handled\<close>. The configuration error, thrown before the \<open>try\<close>, has no code, so
  \<open>handled\<close> leaves it alone too and one statement covers the whole function.
\<close>

lemma catch_handler_outcome:
  assumes tm: "traced m"
    and run: "catch_io m (\<lambda>e. if code e = Some ''ENOENT'' then throw_io environmentError else throw_io e)
                (w, []) = (r, (w', tr))"
  shows "\<exists>r0. outcome_ok r0 tr \<and> r = (case r0 of Inl e \<Rightarrow> Inl (handled e) | Inr a \<Rightarrow> Inr a)"
proof -
  obtain r0 w0 tr0 where m0: "m (w, []) = (r0, (w0, tr0))" by (metis prod.exhaust)
  with tm obtain evs where "tr0 = [] @ evs" and "outcome_ok r0 evs" unfolding traced_def by blast
  then have ok: "outcome_ok r0 tr0" by simp
  show ?thesis
  proof (cases r0)
    case (Inl e)
    with m0 run have "r = Inl (handled e)" "tr = tr0"
      by (simp_all add: catch_io_def throw_io_def handled_def split: if_splits)
    with ok Inl show ?thesis by (intro exI[of _ r0]) simp
  next
    case (Inr a)
    with m0 run have "r = Inr a" "tr = tr0" by (simp_all add: catch_io_def)
    with ok Inr show ?thesis by (intro exI[of _ r0]) simp
  qed
qed

lemma code_configurationError: "code configurationError = None"
  by (simp add: configurationError_def newError_def)

lemma publish_outcome:
  assumes run: "prepareContainerAsset H assemblyDir asset toolkitInfo reuse (w, []) = (r, (w', tr))"
  shows "\<exists>r0. outcome_ok r0 tr \<and> r = (case r0 of Inl e \<Rightarrow> Inl (handled e) | Inr a \<Rightarrow> Inr a)"
proof -
  consider (invalid) "\<not> truthy (imageNameParameter asset)
                      \<and> (\<not> truthy (repositoryName asset) \<or> \<not> truthy (imageTag asset))"
    | (reused) "\<not> (\<not> truthy (imageNameParameter asset)
                      \<and> (\<not> truthy (repositoryName asset) \<or> \<not> truthy (imageTag asset)))" "reuse"
    | (published) "\<not> (\<not> truthy (imageNameParameter asset)
                      \<and> (\<not> truthy (repositoryName asset) \<or> \<not> truthy (imageTag asset)))" "\<not> reuse"
    by blast
  then show ?thesis
  proof cases
    case invalid
    with run have "r = Inl configurationError" "tr = []"
      by (simp_all add: prepareContainerAsset_def throw_io_def)
    then show ?thesis
      by (intro exI[of _ "Inl configurationError"]) (simp add: clean_def handled_def code_configurationError)
  next
    case reused
    with run have "tr = []" "\<exists>a. r = Inr a"
      by (auto simp add: prepareContainerAsset_def return_io_def)
    then obtain a where "r = Inr a" "tr = []" by blast
    then show ?thesis by (intro exI[of _ "Inr a"]) (simp add: clean_def)
  next
    case published
    show ?thesis
    proof (rule catch_handler_outcome)
      show "catch_io
          (bind_io (perform (PrepareEcrRepository asset) (prepareEcrRepository toolkitInfo asset))
            (\<lambda>ecr.
              if truthy (repositoryName asset) \<and> truthy (imageTag asset) then
                bind_io (perform (CheckEcrImage (the (repositoryName asset)) (the (imageTag asset)))
                           (checkEcrImage toolkitInfo (the (repositoryName asset))
                              (the (imageTag asset))))
                  (\<lambda>exists. if exists then return_io []
                            else buildAndPush H asset toolkitInfo
                                   (contextPath H assemblyDir asset) ecr)
              else buildAndPush H asset toolkitInfo (contextPath H assemblyDir asset) ecr))
          (\<lambda>e. if code e = Some ''ENOENT'' then throw_io environmentError else throw_io e)
          (w, []) = (r, (w', tr))"
        using run unfolding prepareContainerAsset_def
          if_not_P [OF published(1)] if_not_P [OF published(2)] .
    next
      show "traced (bind_io (perform (PrepareEcrRepository asset) (prepareEcrRepository toolkitInfo asset))
            (\<lambda>ecr.
              if truthy (repositoryName asset) \<and> truthy (imageTag asset) then
                bind_io (perform (CheckEcrImage (the (repositoryName asset)) (the (imageTag asset)))
                           (checkEcrImage toolkitInfo (the (repositoryName asset))
                              (the (imageTag asset))))
                  (\<lambda>exists. if exists then return_io []
                            else buildAndPush H asset toolkitInfo
                                   (contextPath H assemblyDir asset) ecr)
              else buildAndPush H asset toolkitInfo (contextPath H assemblyDir asset) ecr))"
        by (intro traced_intros)
    qed
  qed
qed

lemma failed_event_is_outcome:
  assumes ok: "outcome_ok r0 tr" and ev: "Event c (Some e) \<in> set tr"
  shows "r0 = Inl e \<and> last tr = Event c (Some e)"
proof -
  from ev have nc: "\<not> clean tr" by (force simp add: clean_def list_all_iff)
  show ?thesis
  proof (cases r0)
    case (Inr a)
    with ok nc show ?thesis by simp
  next
    case (Inl e0)
    with ok nc obtain evs0 c0 where tr: "tr = evs0 @ [Event c0 (Some e0)]" and c0: "clean evs0"
      by auto
    from c0 ev tr have "Event c (Some e) = Event c0 (Some e0)"
      by (auto simp add: clean_def list_all_iff)
    with tr Inl show ?thesis by simp
  qed
qed

subsection \<open>Where the trace starts\<close>

lemma catch_state:
  "snd (catch_io m (\<lambda>e. if P e then throw_io a else throw_io e) s) = snd (m s)"
proof -
  obtain r s' where ms: "m s = (r, s')" by (cases "m s")
  then show ?thesis by (cases r) (simp_all add: catch_io_def throw_io_def)
qed

lemma bind_perform_first:
  assumes k: "\<And>a. traced (k a)"
  shows "\<exists>outcome rest. snd (snd (bind_io (perform c f) k (w, tr))) = tr @ Event c outcome # rest"
proof -
  obtain r0 w0 where f: "f w = (r0, w0)" by (cases "f w")
  show ?thesis
  proof (cases r0)
    case (Inl e)
    with f have "bind_io (perform c f) k (w, tr) = (Inl e, (w0, tr @ [Event c (Some e)]))"
      by (simp add: bind_io_Inl perform_Inl)
    then show ?thesis by simp
  next
    case (Inr a)
    with f have step: "bind_io (perform c f) k (w, tr) = k a (w0, tr @ [Event c None])"
      by (simp add: bind_io_Inr perform_Inr)
    obtain r1 w1 tr1 where k1: "k a (w0, tr @ [Event c None]) = (r1, (w1, tr1))"
      by (metis prod.exhaust)
    with k [of a] obtain evs where "tr1 = (tr @ [Event c None]) @ evs"
      unfolding traced_def by blast
    with step k1 show ?thesis by simp
  qed
qed

lemma buildAndPush_first:
  "\<exists>outcome rest. snd (snd (buildAndPush H asset toolkitInfo ctx ecr (w, tr)))
      = tr @ Event (Shell (baseCommand asset ecr ctx)) outcome # rest"
  unfolding buildAndPush_def call_shell_def Let_def
  by (rule bind_perform_first) (intro traced_intros)

lemma publish_contacts_registry:
  assumes valid: "truthy (imageNameParameter asset)
                  \<or> (truthy (repositoryName asset) \<and> truthy (imageTag asset))"
  shows "\<exists>outcome rest. snd (snd (prepareContainerAsset H assemblyDir asset toolkitInfo False (w, [])))
           = Event (PrepareEcrRepository asset) outcome # rest"
proof -
  from valid have c: "\<not> (\<not> truthy (imageNameParameter asset)
      \<and> (\<not> truthy (repositoryName asset) \<or> \<not> truthy (imageTag asset)))" by blast
  have "\<exists>outcome rest. snd (snd (bind_io (perform (PrepareEcrRepository asset)
                                  (prepareEcrRepository toolkitInfo asset))
            (\<lambda>ecr.
              if truthy (repositoryName asset) \<and> truthy (imageTag asset) then
                bind_io (perform (CheckEcrImage (the (repositoryName asset)) (the (imageTag asset)))
                           (checkEcrImage toolkitInfo (the (repositoryName asset))
                              (the (imageTag asset))))
                  (\<lambda>exists. if exists then return_io []
                            else buildAndPush H asset toolkitInfo
                                   (contextPath H assemblyDir asset) ecr)
              else buildAndPush H asset toolkitInfo (contextPath H assemblyDir asset) ecr)
            (w, []))) = [] @ Event (PrepareEcrRepository asset) outcome # rest"
    by (rule bind_perform_first) (intro traced_intros)
  then show ?thesis
    unfolding prepareContainerAsset_def if_not_P [OF c] if_False catch_state by simp
qed

subsection \<open>The build and push commands\<close>

lemma baseCommand_shape:
  "baseCommand asset ecr ctx =
     [''docker'', ''build'']
     @ concat (map (\<lambda>(k, v). [''--build-arg'', k @ ''='' @ v])
         (Object_entries
           (case buildArgs asset of None \<Rightarrow> [] | Some properties \<Rightarrow> properties)))
     @ [''--tag'',
        ecr_repositoryUri ecr @ '':'' @ (case imageTag asset of None \<Rightarrow> ''latest'' | Some t \<Rightarrow> t),
        ctx]
     @ (if truthy (target asset) then [''--target'', the (target asset)] else [])
     @ (if truthy (file_asset asset) then [''--file'', the (file_asset asset)] else [])"
  by (simp add: baseCommand_def imageUri_def Let_def)

text \<open>Without array-index keys the enumeration order is the insertion order.\<close>

lemma Object_entries_insertion_order:
  assumes "list_all (\<lambda>(k, v). \<not> isArrayIndex k) properties"
  shows "Object_entries properties = properties"
proof -
  from assms have "filter (\<lambda>(k, v). isArrayIndex k) properties = []"
    by (induction properties) auto
  moreover from assms have "filter (\<lambda>(k, v). \<not> isArrayIndex k) properties = properties"
    by (induction properties) auto
  ultimately show ?thesis by (simp add: Object_entries_def)
qed

lemma take2_baseCommand: "take 2 (baseCommand asset ecr ctx) = [''docker'', ''build'']"
  by (simp add: baseCommand_shape)

lemma shell_commands_append:
  "shell_commands (xs @ ys) = shell_commands xs @ shell_commands ys"
  by (induction xs rule: shell_commands.induct) simp_all

lemma publish_reaches_build:
  assumes valid: "truthy (imageNameParameter asset)
                  \<or> (truthy (repositoryName asset) \<and> truthy (imageTag asset))"
    and resolve: "prepareEcrRepository toolkitInfo asset w = (Inr ecr, w1)"
    and noskip: "if truthy (repositoryName asset) \<and> truthy (imageTag asset)
                 then checkEcrImage toolkitInfo (the (repositoryName asset)) (the (imageTag asset)) w1
                      = (Inr False, w2)
                 else w2 = w1"
  shows "\<exists>pre. shell_commands pre = [] \<and>
           snd (snd (prepareContainerAsset H assemblyDir asset toolkitInfo False (w, [])))
           = snd (snd (buildAndPush H asset toolkitInfo (contextPath H assemblyDir asset) ecr (w2, pre)))"
proof -
  from valid have c: "\<not> (\<not> truthy (imageNameParameter asset)
      \<and> (\<not> truthy (repositoryName asset) \<or> \<not> truthy (imageTag asset)))" by blast
  show ?thesis
  proof (cases "truthy (repositoryName asset) \<and> truthy (imageTag asset)")
    case True
    with noskip have check: "checkEcrImage toolkitInfo (the (repositoryName asset))
        (the (imageTag asset)) w1 = (Inr False, w2)" by simp
    have "snd (snd (prepareContainerAsset H assemblyDir asset toolkitInfo False (w, [])))
          = snd (snd (buildAndPush H asset toolkitInfo (contextPath H assemblyDir asset) ecr
              (w2, [Event (PrepareEcrRepository asset) None,
                    Event (CheckEcrImage (the (repositoryName asset)) (the (imageTag asset))) None])))"
      unfolding prepareContainerAsset_def if_not_P [OF c] if_False catch_state if_P [OF True]
      using resolve check by (simp add: bind_io_def perform_def)
    then show ?thesis by (intro exI [of _ "[Event (PrepareEcrRepository asset) None,
        Event (CheckEcrImage (the (repositoryName asset)) (the (imageTag asset))) None]"]) simp
  next
    case False
    with noskip have w2: "w2 = w1" by simp
    have "snd (snd (prepareContainerAsset H assemblyDir asset toolkitInfo False (w, [])))
          = snd (snd (buildAndPush H asset toolkitInfo (contextPath H assemblyDir asset) ecr
              (w2, [Event (PrepareEcrRepository asset) None])))"
      unfolding prepareContainerAsset_def if_not_P [OF c] if_False catch_state if_not_P [OF False]
      using resolve w2 by (simp add: bind_io_def perform_def)
    then show ?thesis by (intro exI [of _ "[Event (PrepareEcrRepository asset) None]"]) simp
  qed
qed

lemma buildAndPush_push:
  assumes "shell_commands pre = []"
  shows "\<forall>cmd\<in>set (shell_commands (snd (snd (buildAndPush H asset toolkitInfo ctx ecr (w, pre))))).
           take 2 cmd = [''docker'', ''push''] \<longrightarrow> cmd = [''docker'', ''push'', imageUri asset ecr]"
  using assms take2_baseCommand [of asset ecr ctx]
  unfolding buildAndPush_def dockerLogin_def call_shell_def
  by (auto simp add: bind_io_def perform_def throw_io_def return_io_def Let_def
        shell_commands_append split: prod.splits sum.splits if_splits)

text \<open>Every command of the build-and-push part is one of four, all on the same image.\<close>

lemma buildAndPush_commands:
  assumes "shell_commands pre = []"
  shows "list_all (\<lambda>cmd. cmd = baseCommand asset ecr ctx
                      \<or> take 2 cmd = [''docker'', ''login'']
                      \<or> cmd = [''docker'', ''push'', imageUri asset ecr]
                      \<or> cmd = [''docker'', ''image'', ''inspect'', imageUri asset ecr,
                                ''--format'', ''{{range .RepoDigests}}{{.}}|{{end}}''])
           (shell_commands (snd (snd (buildAndPush H asset toolkitInfo ctx ecr (w, pre)))))"
  using assms
  unfolding buildAndPush_def dockerLogin_def call_shell_def
  by (auto simp add: bind_io_def perform_def throw_io_def return_io_def Let_def
        shell_commands_append split: prod.splits sum.splits if_splits)

subsection \<open>Rewriting the digest reference\<close>

text \<open>
  A piece that starts with \<open>repositoryUri@sha256:\<close> has \<open>repositoryUri\<close> at position 0,
  so that is the occurrence \<open>replace\<close> rewrites. The replacement text is inserted as it
  is when it contains no dollar sign; otherwise it is expanded, as the example shows.
\<close>

lemma indexOf_startsWith: "startsWith s p \<Longrightarrow> indexOf s p = Some 0"
  by (cases s) (simp_all add: startsWith_def)

lemma getSubstitution_plain:
  "CHR 0x24 \<notin> set replaceValue \<Longrightarrow> getSubstitution matched str position replaceValue = replaceValue"
  by (induction matched str position replaceValue rule: getSubstitution.induct) auto

lemma startsWith_append: "startsWith s (p @ q) \<Longrightarrow> startsWith s p"
proof -
  assume "startsWith s (p @ q)"
  then have "take (length p + length q) s = p @ q" by (simp add: startsWith_def)
  then have "take (length p) (take (length p + length q) s) = take (length p) (p @ q)" by simp
  then show ?thesis by (simp add: startsWith_def min_def)
qed

lemma startsWith_nonempty: "startsWith s p \<Longrightarrow> p \<noteq> [] \<Longrightarrow> s \<noteq> []"
  by (auto simp add: startsWith_def)

lemma replace_prefix:
  assumes "startsWith d (uri @ q)" and "CHR 0x24 \<notin> set repoName"
  shows "replace d uri repoName = repoName @ drop (length uri) d"
  using indexOf_startsWith [OF startsWith_append [OF assms(1)]] assms(2)
  by (simp add: replace_def getSubstitution_plain)

lemma replace_expands_dollar:
  "replace ''repoUri@sha256:bbb'' ''repoUri'' ''a$$b'' = ''a$b@sha256:bbb''"
  by (simp add: replace_def startsWith_def)

lemma find_SomeD: "List.find P xs = Some x \<Longrightarrow> P x"
  by (induction xs) (auto split: if_splits)

lemma truthy_find_startsWith:
  assumes "q \<noteq> []"
  shows "truthy (List.find (\<lambda>digest. startsWith digest (p @ q)) xs)
     = (List.find (\<lambda>digest. startsWith digest (p @ q)) xs \<noteq> None)"
proof (cases "List.find (\<lambda>digest. startsWith digest (p @ q)) xs")
  case None
  then show ?thesis by (simp add: truthy_def)
next
  case (Some d)
  from find_SomeD [OF this] assms have "d \<noteq> []" by (auto dest: startsWith_nonempty)
  with Some show ?thesis by (simp add: truthy_def)
qed

subsection \<open>Sample runs\<close>

lemma run_test_scenario:
  "prepareContainerAsset (sample_host (Some (1, stoptest)) []) ''.'' test_asset
     (sample_toolkit (Some (1, stoptest)) test_ecr False) False (0, [])
   = (Inl stoptest, (2, [Event (PrepareEcrRepository test_asset) None,
        Event (Shell [''docker'', ''build'', ''--build-arg'', ''a=b'', ''--build-arg'', ''c=d'',
          ''--tag'', ''uri:latest'', ''/foo'', ''--target'', ''a-target'']) (Some stoptest)]))"
  by (simp add: model_defs sample_defs)

lemma run_resolve_enoent:
  "prepareContainerAsset (sample_host (Some (0, enoent)) sample_digests) ''/assembly/dir/root''
     both_asset (sample_toolkit (Some (0, enoent)) sample_ecr False) False (0, [])
   = (Inl environmentError, (1, [Event (PrepareEcrRepository both_asset) (Some enoent)]))"
  by (simp add: model_defs sample_defs)

lemma run_all_steps:
  "prepareContainerAsset (sample_host None sample_digests) ''/assembly/dir/root''
     both_asset (sample_toolkit None sample_ecr False) False (0, [])
   = (Inr [\<lparr>ParameterKey = Some ''MyParameter'',
             ParameterValue = Some ''repositoryName@sha256:bbb'',
             UsePreviousValue = None\<rparr>],
      (7, [Event (PrepareEcrRepository both_asset) None,
           Event (CheckEcrImage ''some-name'' ''v1'') None,
           Event (Shell [''docker'', ''build'', ''--tag'', ''repoUri:v1'',
             ''/assembly/dir/root/relative-to-assembly'', ''--file'', ''Dockerfile.prod'']) None,
           Event GetEcrCredentials None,
           Event (Shell [''docker'', ''login'', ''--username'', ''user'', ''--password'', ''secret'',
             ''https://registry'']) None,
           Event (Shell [''docker'', ''push'', ''repoUri:v1'']) None,
           Event (Shell [''docker'', ''image'', ''inspect'', ''repoUri:v1'', ''--format'',
             ''{{range .RepoDigests}}{{.}}|{{end}}'']) None]))"
  by (simp add: model_defs sample_defs trim_def isWhiteSpace_def replace_def)

lemma run_no_matching_digest:
  "prepareContainerAsset (sample_host None (''otherrepo@sha256:aaa|'' @ [CHR 0x0A])) ''.''
     test_asset (sample_toolkit None sample_ecr False) False (0, [])
   = (Inl (integrityError ''repoUri@sha256:'' ''otherrepo@sha256:aaa|''),
      (6, [Event (PrepareEcrRepository test_asset) None,
           Event (Shell [''docker'', ''build'', ''--build-arg'', ''a=b'', ''--build-arg'', ''c=d'',
             ''--tag'', ''repoUri:latest'', ''/foo'', ''--target'', ''a-target'']) None,
           Event GetEcrCredentials None,
           Event (Shell [''docker'', ''login'', ''--username'', ''user'', ''--password'', ''secret'',
             ''https://registry'']) None,
           Event (Shell [''docker'', ''push'', ''repoUri:latest'']) None,
           Event (Shell [''docker'', ''image'', ''inspect'', ''repoUri:latest'', ''--format'',
             ''{{range .RepoDigests}}{{.}}|{{end}}'']) None]))"
  by (simp add: model_defs sample_defs trim_def isWhiteSpace_def integrityError_def newError_def)

text \<open>
  Each of the seven steps inside the \<open>try\<close> block can be the one that is rejected:
  with \<open>ENOENT\<close> at call number \<open>k\<close>, the run ends after \<open>k + 1\<close> calls, the last
  call is the rejected one, and the caller sees the install-Docker error.
\<close>
lemma enoent_at_each_step:
  "map (\<lambda>k. let run = prepareContainerAsset (sample_host (Some (k, enoent)) sample_digests)
                 ''/assembly/dir/root'' both_asset
                 (sample_toolkit (Some (k, enoent)) sample_ecr False) False (0, [])
            in (fst run, last (snd (snd run)))) [0, 1, 2, 3, 4, 5, 6]
   = [(Inl environmentError, Event (PrepareEcrRepository both_asset) (Some enoent)),
      (Inl environmentError, Event (CheckEcrImage ''some-name'' ''v1'') (Some enoent)),
      (Inl environmentError, Event (Shell [''docker'', ''build'', ''--tag'', ''repoUri:v1'',
         ''/assembly/dir/root/relative-to-assembly'', ''--file'', ''Dockerfile.prod'']) (Some enoent)),
      (Inl environmentError, Event GetEcrCredentials (Some enoent)),
      (Inl environmentError, Event (Shell [''docker'', ''login'', ''--username'', ''user'',
         ''--password'', ''secret'', ''https://registry'']) (Some enoent)),
      (Inl environmentError, Event (Shell [''docker'', ''push'', ''repoUri:v1'']) (Some enoent)),
      (Inl environmentError, Event (Shell [''docker'', ''image'', ''inspect'', ''repoUri:v1'',
         ''--format'', ''{{range .RepoDigests}}{{.}}|{{end}}'']) (Some enoent))]"
  by (simp add: model_defs sample_defs)

subsection \<open>The claims\<close>

text \<open>
  Claim C1. An asset whose \<open>repositoryName\<close> and \<open>imageTag\<close> are both present (non-empty
  strings, which is what line 38 tests) is published with \<open>reuse = false\<close>; the
  repository is resolved and the registry reports the tag \<open>repo:tag\<close> as present. Then
  the result is the empty parameter list, and the trace consists of exactly two calls:
  the resolution, then the existence check. No \<open>shell\<close> call (build, login, push) and no
  credential fetch is made.
\<close>
theorem C1_skip_existing_image:
  assumes repo: "repositoryName asset = Some repo" "repo \<noteq> []"
    and tag: "imageTag asset = Some tag" "tag \<noteq> []"
    and resolve: "prepareEcrRepository toolkitInfo asset w = (Inr ecr, w1)"
    and present: "checkEcrImage toolkitInfo repo tag w1 = (Inr True, w2)"
  shows "prepareContainerAsset H assemblyDir asset toolkitInfo False (w, [])
         = (Inr [], (w2, [Event (PrepareEcrRepository asset) None,
                          Event (CheckEcrImage repo tag) None]))"
  using assms
  by (simp add: prepareContainerAsset_def truthy_def bind_io_def catch_io_def perform_def return_io_def)

theorem C1_skip_existing_image_witness:
  "prepareContainerAsset (sample_host None sample_digests) ''/assembly/dir/root'' direct_asset
     (sample_toolkit None sample_ecr True) False (0, [])
   = (Inr [], (2, [Event (PrepareEcrRepository direct_asset) None,
                   Event (CheckEcrImage ''some-name'' ''v1'') None]))"
proof -
  have resolve: "prepareEcrRepository (sample_toolkit None sample_ecr True) direct_asset 0
                 = (Inr sample_ecr, 1)"
    by (simp add: sample_toolkit_def rejects_def)
  have present: "checkEcrImage (sample_toolkit None sample_ecr True) ''some-name'' ''v1'' 1
                 = (Inr True, 2)"
    by (simp add: sample_toolkit_def rejects_def)
  show ?thesis
    by (rule C1_skip_existing_image [OF _ _ _ _ resolve present])
       (simp_all add: direct_asset_def)
qed

text \<open>
  Claim C2. In legacy mode (\<open>imageNameParameter\<close> present, \<open>reuse = false\<close>, no skip),
  with every call up to the digest inspection successful and \<open>out\<close> the output of the
  inspection: the trimmed output is split at \<open>|\<close>, and the first piece that starts with
  \<open>repositoryUri@sha256:\<close> is selected. If there is one, the result is exactly one
  parameter, keyed by \<open>imageNameParameter\<close>, whose value is that piece with its leading
  \<open>repositoryUri\<close> replaced by \<open>repositoryName\<close>. If there is none, the run fails with
  the error of line 84, whose message ends with the trimmed output. The repository name
  is taken to contain no dollar sign, as every ECR repository name does:
  \<open>String.prototype.replace\<close> would expand \<open>$\<close> patterns in it.
\<close>
theorem C2_legacy_digest_parameter:
  assumes legacy: "truthy (imageNameParameter asset)"
    and resolve: "prepareEcrRepository toolkitInfo asset w = (Inr ecr, w1)"
    and noskip: "if truthy (repositoryName asset) \<and> truthy (imageTag asset)
                 then checkEcrImage toolkitInfo (the (repositoryName asset)) (the (imageTag asset)) w1
                      = (Inr False, w2)
                 else w2 = w1"
    and build: "shell H (baseCommand asset ecr (contextPath H assemblyDir asset)) w2 = (Inr out1, w3)"
    and creds: "getEcrCredentials toolkitInfo w3 = (Inr credentials, w4)"
    and login: "shell H [''docker'', ''login'', ''--username'', username credentials,
                  ''--password'', password credentials, endpoint credentials] w4 = (Inr out2, w5)"
    and push: "shell H [''docker'', ''push'', imageUri asset ecr] w5 = (Inr out3, w6)"
    and inspect: "shell H [''docker'', ''image'', ''inspect'', imageUri asset ecr, ''--format'',
                    ''{{range .RepoDigests}}{{.}}|{{end}}''] w6 = (Inr out, w7)"
    and plain: "CHR 0x24 \<notin> set (ecr_repositoryName ecr)"
  shows "fst (prepareContainerAsset H assemblyDir asset toolkitInfo False (w, [])) =
     (case List.find (\<lambda>digest. startsWith digest (ecr_repositoryUri ecr @ ''@sha256:''))
             (split CHR ''|'' (trim out)) of
        Some digest \<Rightarrow>
          Inr [\<lparr>ParameterKey = imageNameParameter asset,
                ParameterValue = Some (ecr_repositoryName ecr
                                       @ drop (length (ecr_repositoryUri ecr)) digest),
                UsePreviousValue = None\<rparr>]
      | None \<Rightarrow>
          Inl (JsError ''Error''
                (''Unable to identify repository digest (none starts with ''
                 @ ecr_repositoryUri ecr @ ''@sha256:'' @ '') in:'' @ [CHR 0x0A] @ trim out)
                None))"
proof -
  from legacy have c: "\<not> (\<not> truthy (imageNameParameter asset)
      \<and> (\<not> truthy (repositoryName asset) \<or> \<not> truthy (imageTag asset)))" by blast
  obtain pre where body: "prepareContainerAsset H assemblyDir asset toolkitInfo False (w, [])
      = catch_io (buildAndPush H asset toolkitInfo (contextPath H assemblyDir asset) ecr)
          (\<lambda>e. if code e = Some ''ENOENT'' then throw_io environmentError else throw_io e) (w2, pre)"
  proof (cases "truthy (repositoryName asset) \<and> truthy (imageTag asset)")
    case True
    with noskip have check: "checkEcrImage toolkitInfo (the (repositoryName asset))
        (the (imageTag asset)) w1 = (Inr False, w2)" by simp
    have "prepareContainerAsset H assemblyDir asset toolkitInfo False (w, [])
      = catch_io (buildAndPush H asset toolkitInfo (contextPath H assemblyDir asset) ecr)
          (\<lambda>e. if code e = Some ''ENOENT'' then throw_io environmentError else throw_io e)
          (w2, [Event (PrepareEcrRepository asset) None,
                Event (CheckEcrImage (the (repositoryName asset)) (the (imageTag asset))) None])"
      unfolding prepareContainerAsset_def if_not_P [OF c] if_False if_P [OF True]
      using resolve check by (simp add: bind_io_def perform_def catch_io_def)
    then show ?thesis using that by blast
  next
    case False
    with noskip have w2: "w2 = w1" by simp
    have "prepareContainerAsset H assemblyDir asset toolkitInfo False (w, [])
      = catch_io (buildAndPush H asset toolkitInfo (contextPath H assemblyDir asset) ecr)
          (\<lambda>e. if code e = Some ''ENOENT'' then throw_io environmentError else throw_io e)
          (w2, [Event (PrepareEcrRepository asset) None])"
      unfolding prepareContainerAsset_def if_not_P [OF c] if_False if_not_P [OF False]
      using resolve w2 by (simp add: bind_io_def perform_def catch_io_def)
    then show ?thesis using that by blast
  qed
  have q: "''@sha256:'' \<noteq> []" by simp
  show ?thesis
  proof (cases "List.find (\<lambda>digest. startsWith digest (ecr_repositoryUri ecr @ ''@sha256:''))
             (split CHR ''|'' (trim out))")
    case None
    then show ?thesis
      unfolding body buildAndPush_def dockerLogin_def call_shell_def
      using legacy build creds login push inspect
      by (simp add: bind_io_def perform_def catch_io_def throw_io_def return_io_def Let_def
            truthy_find_startsWith [OF q] integrityError_def newError_def)
  next
    case (Some digest)
    then have "startsWith digest (ecr_repositoryUri ecr @ ''@sha256:'')"
      by (rule find_SomeD)
    from replace_prefix [OF this plain] Some show ?thesis
      unfolding body buildAndPush_def dockerLogin_def call_shell_def
      using legacy build creds login push inspect
      by (simp add: bind_io_def perform_def catch_io_def throw_io_def return_io_def Let_def
            truthy_find_startsWith [OF q])
  qed
qed

theorem C2_legacy_digest_parameter_witness:
  "fst (prepareContainerAsset (sample_host None sample_digests) ''.'' test_asset
          (sample_toolkit None sample_ecr False) False (0, []))
   = Inr [\<lparr>ParameterKey = Some ''MyParameter'',
            ParameterValue = Some ''repositoryName@sha256:bbb'',
            UsePreviousValue = None\<rparr>]"
proof -
  let ?H = "sample_host None sample_digests"
  let ?T = "sample_toolkit None sample_ecr False"
  have legacy: "truthy (imageNameParameter test_asset)"
    by (simp add: test_asset_def truthy_def)
  have resolve: "prepareEcrRepository ?T test_asset 0 = (Inr sample_ecr, 1)"
    by (simp add: sample_toolkit_def rejects_def)
  have noskip: "if truthy (repositoryName test_asset) \<and> truthy (imageTag test_asset)
      then checkEcrImage ?T (the (repositoryName test_asset)) (the (imageTag test_asset)) 1
           = (Inr False, 1)
      else (1::nat) = 1"
    by (simp add: test_asset_def truthy_def)
  have build: "shell ?H (baseCommand test_asset sample_ecr (contextPath ?H ''.'' test_asset)) 1
      = (Inr [], 2)"
    by (simp add: sample_host_def rejects_def baseCommand_def Let_def)
  have creds: "getEcrCredentials ?T 2 = (Inr sample_credentials, 3)"
    by (simp add: sample_toolkit_def rejects_def)
  have login: "shell ?H [''docker'', ''login'', ''--username'', username sample_credentials,
      ''--password'', password sample_credentials, endpoint sample_credentials] 3 = (Inr [], 4)"
    by (simp add: sample_host_def rejects_def)
  have push: "shell ?H [''docker'', ''push'', imageUri test_asset sample_ecr] 4 = (Inr [], 5)"
    by (simp add: sample_host_def rejects_def)
  have inspect: "shell ?H [''docker'', ''image'', ''inspect'', imageUri test_asset sample_ecr,
      ''--format'', ''{{range .RepoDigests}}{{.}}|{{end}}''] 5 = (Inr sample_digests, 6)"
    by (simp add: sample_host_def rejects_def)
  have plain: "CHR 0x24 \<notin> set (ecr_repositoryName sample_ecr)"
    by (simp add: sample_ecr_def)
  from C2_legacy_digest_parameter [OF legacy resolve noskip build creds login push inspect plain]
  show ?thesis
    by (simp add: sample_digests_def sample_ecr_def test_asset_def trim_def isWhiteSpace_def
          startsWith_def)
qed

text \<open>
  Claim C3. The run ends with the configuration error of line 18, the world untouched
  and the trace empty, exactly when \<open>imageNameParameter\<close> is absent and
  \<open>repositoryName\<close> and \<open>imageTag\<close> are not both present (each in the sense of
  JavaScript truthiness). This holds for either value of \<open>reuse\<close>: the validation comes
  before the reuse shortcut. An asset with \<open>imageNameParameter\<close> present, or with both
  \<open>repositoryName\<close> and \<open>imageTag\<close> present, does not end this way.
\<close>
theorem C3_configuration_error:
  "(prepareContainerAsset H assemblyDir asset toolkitInfo reuse (w, [])
      = (Inl configurationError, (w, [])))
   = (\<not> truthy (imageNameParameter asset)
      \<and> \<not> (truthy (repositoryName asset) \<and> truthy (imageTag asset)))"
proof (cases "truthy (imageNameParameter asset)
              \<or> (truthy (repositoryName asset) \<and> truthy (imageTag asset))")
  case False
  then show ?thesis by (simp add: prepareContainerAsset_def throw_io_def)
next
  case True
  show ?thesis
  proof (cases reuse)
    case True
    with \<open>truthy (imageNameParameter asset) \<or> _\<close> show ?thesis
      by (auto simp add: prepareContainerAsset_def return_io_def)
  next
    case False
    from publish_contacts_registry [OF True, of H assemblyDir toolkitInfo w]
    have "snd (snd (prepareContainerAsset H assemblyDir asset toolkitInfo False (w, []))) \<noteq> []"
      by auto
    then have "prepareContainerAsset H assemblyDir asset toolkitInfo reuse (w, [])
                 \<noteq> (Inl configurationError, (w, []))"
      using False by auto
    with True show ?thesis by blast
  qed
qed

theorem C3_configuration_error_witness:
  "prepareContainerAsset (sample_host None sample_digests) ''/assembly/dir/root''
     (direct_asset\<lparr>imageTag := None\<rparr>) (sample_toolkit None sample_ecr True) True (0, [])
   = (Inl configurationError, (0, []))"
  using C3_configuration_error [of "sample_host None sample_digests" "''/assembly/dir/root''"
      "direct_asset\<lparr>imageTag := None\<rparr>" "sample_toolkit None sample_ecr True" True 0]
  by (simp add: direct_asset_def truthy_def)

text \<open>
  Claim C4 says that with \<open>reuse = true\<close> no collaborator is contacted and the result is
  one "use previous value" entry when \<open>imageNameParameter\<close> is present and empty when it
  is absent. The first two parts hold, the last does not: lines 24 to 26 return one entry
  in every case. For an asset in direct addressing (\<open>imageNameParameter\<close> undefined,
  \<open>repositoryName\<close> and \<open>imageTag\<close> present) the result is a list of one parameter
  whose key is undefined, not the empty list; world and trace are unchanged.
\<close>
theorem C4_reuse_direct_addressing:
  assumes "imageNameParameter asset = None"
    and "truthy (repositoryName asset)" and "truthy (imageTag asset)"
  shows "prepareContainerAsset H assemblyDir asset toolkitInfo True (w, [])
         = (Inr [\<lparr>ParameterKey = None, ParameterValue = None, UsePreviousValue = Some True\<rparr>],
            (w, []))"
  using assms by (simp add: prepareContainerAsset_def return_io_def)

theorem C4_reuse_direct_addressing_witness:
  "prepareContainerAsset (sample_host None sample_digests) ''/assembly/dir/root'' direct_asset
     (sample_toolkit None sample_ecr True) True (0, [])
   = (Inr [\<lparr>ParameterKey = None, ParameterValue = None, UsePreviousValue = Some True\<rparr>], (0, []))"
  by (rule C4_reuse_direct_addressing) (simp_all add: direct_asset_def truthy_def)

text \<open>
  Claim C5. Whenever a collaborator call of a run is rejected with an error \<open>e\<close>
  (whichever call it is: resolution, existence check, build, credentials, login, push or
  digest inspection), the run fails; it fails with the install-Docker error of line 97 if
  \<open>e.code\<close> is \<open>'ENOENT'\<close>, and with \<open>e\<close> itself, unchanged, otherwise. The rejected
  call is the last call of the run: nothing is retried and nothing follows.
\<close>
theorem C5_errors_propagate:
  assumes run: "prepareContainerAsset H assemblyDir asset toolkitInfo reuse (w, []) = (r, (w', tr))"
    and failed: "Event c (Some e) \<in> set tr"
  shows "r = Inl (if code e = Some ''ENOENT'' then environmentError else e)
          \<and> last tr = Event c (Some e)"
proof -
  from publish_outcome [OF run] obtain r0 where ok: "outcome_ok r0 tr"
    and r: "r = (case r0 of Inl e \<Rightarrow> Inl (handled e) | Inr a \<Rightarrow> Inr a)" by blast
  from failed_event_is_outcome [OF ok failed] r show ?thesis by (simp add: handled_def)
qed

theorem C5_errors_propagate_witness:
  "prepareContainerAsset (sample_host (Some (1, stoptest)) []) ''.'' test_asset
     (sample_toolkit (Some (1, stoptest)) test_ecr False) False (0, [])
   = (Inl (if code stoptest = Some ''ENOENT'' then environmentError else stoptest),
      (2, [Event (PrepareEcrRepository test_asset) None,
        Event (Shell [''docker'', ''build'', ''--build-arg'', ''a=b'', ''--build-arg'', ''c=d'',
          ''--tag'', ''uri:latest'', ''/foo'', ''--target'', ''a-target'']) (Some stoptest)]))
   \<and> code stoptest = None"
proof -
  have failed: "Event (Shell [''docker'', ''build'', ''--build-arg'', ''a=b'', ''--build-arg'', ''c=d'',
          ''--tag'', ''uri:latest'', ''/foo'', ''--target'', ''a-target'']) (Some stoptest)
      \<in> set [Event (PrepareEcrRepository test_asset) None,
        Event (Shell [''docker'', ''build'', ''--build-arg'', ''a=b'', ''--build-arg'', ''c=d'',
          ''--tag'', ''uri:latest'', ''/foo'', ''--target'', ''a-target'']) (Some stoptest)]"
    by simp
  from C5_errors_propagate [OF run_test_scenario failed] run_test_scenario
  show ?thesis by (simp add: stoptest_def)
qed

text \<open>
  The build arguments \<open>{b: 'x', 2: 'y', 1: 'z'}\<close>, inserted in this order, reach the
  build command as \<open>1=z\<close>, \<open>2=y\<close>, \<open>b=x\<close>: not in insertion order.
\<close>

theorem C6_insertion_order_counterexample:
  "buildArgs numeric_keys_asset = Some [(''b'', ''x''), (''2'', ''y''), (''1'', ''z'')]
   \<and> shell_commands (snd (snd (prepareContainerAsset (sample_host (Some (1, stoptest)) []) ''.''
         numeric_keys_asset (sample_toolkit (Some (1, stoptest)) test_ecr False) False (0, []))))
     = [[''docker'', ''build'', ''--build-arg'', ''1=z'', ''--build-arg'', ''2=y'',
         ''--build-arg'', ''b=x'', ''--tag'', ''uri:latest'', ''/foo'', ''--target'', ''a-target'']]
   \<and> [''docker'', ''build'', ''--build-arg'', ''1=z'', ''--build-arg'', ''2=y'',
         ''--build-arg'', ''b=x'', ''--tag'', ''uri:latest'', ''/foo'', ''--target'', ''a-target'']
     \<noteq> [''docker'', ''build'', ''--build-arg'', ''b=x'', ''--build-arg'', ''2=y'',
         ''--build-arg'', ''1=z'', ''--tag'', ''uri:latest'', ''/foo'', ''--target'', ''a-target'']"
  by (simp add: model_defs sample_defs)

text \<open>
  Claim C6, amended. When the run reaches the build step (validation passes, the
  repository resolves to \<open>ecr\<close>, and the existence check is either not made or answers
  \<open>false\<close>), the first command handed to \<open>shell\<close> is \<open>docker build\<close>, one pair
  \<open>--build-arg K=V\<close> per property of \<open>buildArgs\<close> in the order in which
  \<open>Object.entries\<close> enumerates them (the keys that are array indices first, in ascending
  numeric order, then all other keys in insertion order), \<open>--tag repositoryUri:tag\<close>,
  the context path, then \<open>--target\<close> with its value if and only if \<open>target\<close> is
  present, then \<open>--file\<close> with its value if and only if \<open>file\<close> is present. By
  \<open>Object_entries_insertion_order\<close> the pairs are in insertion order whenever no key is
  an array index.
\<close>
theorem C6_build_command:
  assumes valid: "truthy (imageNameParameter asset)
                  \<or> (truthy (repositoryName asset) \<and> truthy (imageTag asset))"
    and resolve: "prepareEcrRepository toolkitInfo asset w = (Inr ecr, w1)"
    and noskip: "if truthy (repositoryName asset) \<and> truthy (imageTag asset)
                 then checkEcrImage toolkitInfo (the (repositoryName asset)) (the (imageTag asset)) w1
                      = (Inr False, w2)
                 else w2 = w1"
    and properties: "properties = (case buildArgs asset of None \<Rightarrow> [] | Some ps \<Rightarrow> ps)"
  shows "\<exists>rest.
    shell_commands (snd (snd (prepareContainerAsset H assemblyDir asset toolkitInfo False (w, []))))
    = ([''docker'', ''build'']
       @ concat (map (\<lambda>(k, v). [''--build-arg'', k @ ''='' @ v])
           (sort_key (\<lambda>(k, v). toNumber k) (filter (\<lambda>(k, v). isArrayIndex k) properties)
            @ filter (\<lambda>(k, v). \<not> isArrayIndex k) properties))
       @ [''--tag'',
          ecr_repositoryUri ecr @ '':'' @ (case imageTag asset of None \<Rightarrow> ''latest'' | Some t \<Rightarrow> t),
          contextPath H assemblyDir asset]
       @ (if truthy (target asset) then [''--target'', the (target asset)] else [])
       @ (if truthy (file_asset asset) then [''--file'', the (file_asset asset)] else []))
      # rest"
proof -
  from publish_reaches_build [OF valid resolve noskip, of H assemblyDir]
  obtain pre where pre: "shell_commands pre = []"
    and run: "snd (snd (prepareContainerAsset H assemblyDir asset toolkitInfo False (w, [])))
           = snd (snd (buildAndPush H asset toolkitInfo (contextPath H assemblyDir asset) ecr (w2, pre)))"
    by blast
  from buildAndPush_first [of H asset toolkitInfo "contextPath H assemblyDir asset" ecr w2 pre]
  obtain outcome rest where
    "snd (snd (buildAndPush H asset toolkitInfo (contextPath H assemblyDir asset) ecr (w2, pre)))
      = pre @ Event (Shell (baseCommand asset ecr (contextPath H assemblyDir asset))) outcome # rest"
    by blast
  with run pre have "shell_commands (snd (snd (prepareContainerAsset H assemblyDir asset toolkitInfo False (w, []))))
      = baseCommand asset ecr (contextPath H assemblyDir asset) # shell_commands rest"
    by (simp add: shell_commands_append)
  then show ?thesis unfolding baseCommand_shape Object_entries_def properties by blast
qed

theorem C6_build_command_witness:
  "\<exists>rest. shell_commands (snd (snd (prepareContainerAsset (sample_host None sample_digests)
       ''/assembly/dir/root''
       (test_asset\<lparr>path := ''relative-to-assembly'',
          buildArgs := Some [(''b'', ''x''), (''10'', ''y''), (''9'', ''z''), (''a'', ''w'')],
          file_asset := Some ''Dockerfile.prod''\<rparr>)
       (sample_toolkit None test_ecr False) False (0, []))))
   = [''docker'', ''build'', ''--build-arg'', ''9=z'', ''--build-arg'', ''10=y'',
      ''--build-arg'', ''b=x'', ''--build-arg'', ''a=w'', ''--tag'',
      ''uri:latest'', ''/assembly/dir/root/relative-to-assembly'', ''--target'', ''a-target'',
      ''--file'', ''Dockerfile.prod''] # rest"
proof -
  let ?a = "test_asset\<lparr>path := ''relative-to-assembly'',
          buildArgs := Some [(''b'', ''x''), (''10'', ''y''), (''9'', ''z''), (''a'', ''w'')],
          file_asset := Some ''Dockerfile.prod''\<rparr>"
  have valid: "truthy (imageNameParameter ?a) \<or> (truthy (repositoryName ?a) \<and> truthy (imageTag ?a))"
    by (simp add: test_asset_def truthy_def)
  have resolve: "prepareEcrRepository (sample_toolkit None test_ecr False) ?a 0 = (Inr test_ecr, 1)"
    by (simp add: sample_toolkit_def rejects_def)
  have noskip: "if truthy (repositoryName ?a) \<and> truthy (imageTag ?a)
     then checkEcrImage (sample_toolkit None test_ecr False) (the (repositoryName ?a))
            (the (imageTag ?a)) 1 = (Inr False, 1)
     else (1::nat) = 1"
    by (simp add: test_asset_def truthy_def)
  have properties: "[(''b'', ''x''), (''10'', ''y''), (''9'', ''z''), (''a'', ''w'')]
      = (case buildArgs ?a of None \<Rightarrow> [] | Some ps \<Rightarrow> ps)"
    by simp
  from C6_build_command [OF valid resolve noskip properties,
      of "sample_host None sample_digests" "''/assembly/dir/root''"]
  show ?thesis
    by (simp add: test_asset_def test_ecr_def truthy_def contextPath_def sample_host_def
          startsWith_def isArrayIndex_def toNumber_def digitValue_def isDigit_def)
qed

text \<open>
  Claim C7. For an asset without \<open>imageTag\<close> (undefined) that reaches the build step,
  the build command carries \<open>--tag repositoryUri:latest\<close>, and every push command of the
  run is \<open>docker push repositoryUri:latest\<close>. The statement holds for every
  \<open>sourceHash\<close>, and for every \<open>imageNameParameter\<close> with which the asset passes
  validation. The build arguments appear as \<open>Object.entries\<close> enumerates them.
\<close>
theorem C7_default_tag_latest:
  assumes notag: "imageTag asset = None"
    and valid: "truthy (imageNameParameter asset)
                \<or> (truthy (repositoryName asset) \<and> truthy (imageTag asset))"
    and resolve: "prepareEcrRepository toolkitInfo asset w = (Inr ecr, w1)"
  shows "(\<exists>rest.
      shell_commands (snd (snd (prepareContainerAsset H assemblyDir asset toolkitInfo False (w, []))))
      = ([''docker'', ''build'']
         @ concat (map (\<lambda>(k, v). [''--build-arg'', k @ ''='' @ v])
             (Object_entries
               (case buildArgs asset of None \<Rightarrow> [] | Some properties \<Rightarrow> properties)))
         @ [''--tag'', ecr_repositoryUri ecr @ '':latest'', contextPath H assemblyDir asset]
         @ (if truthy (target asset) then [''--target'', the (target asset)] else [])
         @ (if truthy (file_asset asset) then [''--file'', the (file_asset asset)] else []))
        # rest)
    \<and> list_all (\<lambda>cmd. take 2 cmd \<noteq> [''docker'', ''push'']
                      \<or> cmd = [''docker'', ''push'', ecr_repositoryUri ecr @ '':latest''])
        (shell_commands
          (snd (snd (prepareContainerAsset H assemblyDir asset toolkitInfo False (w, [])))))"
proof -
  from notag have nocheck: "\<not> (truthy (repositoryName asset) \<and> truthy (imageTag asset))"
    by (simp add: truthy_def)
  have noskip: "if truthy (repositoryName asset) \<and> truthy (imageTag asset)
      then checkEcrImage toolkitInfo (the (repositoryName asset)) (the (imageTag asset)) w1
           = (Inr False, w1)
      else w1 = w1" unfolding if_not_P [OF nocheck] ..
  from publish_reaches_build [OF valid resolve noskip, of H assemblyDir]
  obtain pre where pre: "shell_commands pre = []"
    and run: "snd (snd (prepareContainerAsset H assemblyDir asset toolkitInfo False (w, [])))
           = snd (snd (buildAndPush H asset toolkitInfo (contextPath H assemblyDir asset) ecr (w1, pre)))"
    by blast
  from notag have uri: "imageUri asset ecr = ecr_repositoryUri ecr @ '':latest''"
    by (simp add: imageUri_def)
  from buildAndPush_first [of H asset toolkitInfo "contextPath H assemblyDir asset" ecr w1 pre]
  obtain outcome rest where
    "snd (snd (buildAndPush H asset toolkitInfo (contextPath H assemblyDir asset) ecr (w1, pre)))
      = pre @ Event (Shell (baseCommand asset ecr (contextPath H assemblyDir asset))) outcome # rest"
    by blast
  with run pre have "shell_commands (snd (snd (prepareContainerAsset H assemblyDir asset toolkitInfo False (w, []))))
      = baseCommand asset ecr (contextPath H assemblyDir asset) # shell_commands rest"
    by (simp add: shell_commands_append)
  then have first: "\<exists>rest.
      shell_commands (snd (snd (prepareContainerAsset H assemblyDir asset toolkitInfo False (w, []))))
      = ([''docker'', ''build'']
         @ concat (map (\<lambda>(k, v). [''--build-arg'', k @ ''='' @ v])
             (Object_entries
               (case buildArgs asset of None \<Rightarrow> [] | Some properties \<Rightarrow> properties)))
         @ [''--tag'', ecr_repositoryUri ecr @ '':latest'', contextPath H assemblyDir asset]
         @ (if truthy (target asset) then [''--target'', the (target asset)] else [])
         @ (if truthy (file_asset asset) then [''--file'', the (file_asset asset)] else []))
        # rest"
    unfolding baseCommand_shape notag by simp
  from buildAndPush_push [OF pre, of H asset toolkitInfo "contextPath H assemblyDir asset" ecr w1]
  have "list_all (\<lambda>cmd. take 2 cmd \<noteq> [''docker'', ''push'']
                      \<or> cmd = [''docker'', ''push'', ecr_repositoryUri ecr @ '':latest''])
        (shell_commands
          (snd (snd (prepareContainerAsset H assemblyDir asset toolkitInfo False (w, [])))))"
    unfolding run uri list_all_iff by blast
  with first show ?thesis by blast
qed

theorem C7_default_tag_latest_witness:
  "shell_commands (snd (snd (prepareContainerAsset (sample_host None sample_digests) ''.''
       test_asset (sample_toolkit None test_ecr False) False (0, []))))
   = [[''docker'', ''build'', ''--build-arg'', ''a=b'', ''--build-arg'', ''c=d'', ''--tag'',
       ''uri:latest'', ''/foo'', ''--target'', ''a-target''],
      [''docker'', ''login'', ''--username'', ''user'', ''--password'', ''secret'',
       ''https://registry''],
      [''docker'', ''push'', ''uri:latest''],
      [''docker'', ''image'', ''inspect'', ''uri:latest'', ''--format'',
       ''{{range .RepoDigests}}{{.}}|{{end}}'']]
   \<and> imageTag test_asset = None \<and> sourceHash test_asset = ''1234567890abcdef''"
proof -
  have notag: "imageTag test_asset = None" by (simp add: test_asset_def)
  have valid: "truthy (imageNameParameter test_asset)
      \<or> (truthy (repositoryName test_asset) \<and> truthy (imageTag test_asset))"
    by (simp add: test_asset_def truthy_def)
  have resolve: "prepareEcrRepository (sample_toolkit None test_ecr False) test_asset 0
      = (Inr test_ecr, 1)"
    by (simp add: sample_toolkit_def rejects_def)
  have run: "shell_commands (snd (snd (prepareContainerAsset (sample_host None sample_digests) ''.''
       test_asset (sample_toolkit None test_ecr False) False (0, []))))
   = [[''docker'', ''build'', ''--build-arg'', ''a=b'', ''--build-arg'', ''c=d'', ''--tag'',
       ''uri:latest'', ''/foo'', ''--target'', ''a-target''],
      [''docker'', ''login'', ''--username'', ''user'', ''--password'', ''secret'',
       ''https://registry''],
      [''docker'', ''push'', ''uri:latest''],
      [''docker'', ''image'', ''inspect'', ''uri:latest'', ''--format'',
       ''{{range .RepoDigests}}{{.}}|{{end}}'']]"
    by (simp add: model_defs sample_defs trim_def isWhiteSpace_def integrityError_def)
  from C7_default_tag_latest [OF notag valid resolve, of "sample_host None sample_digests" "''.''"]
    run notag
  show ?thesis by (simp add: test_asset_def)
qed

text \<open>
  In the scenario of the test "passes the correct target to docker build", the asset of
  the test and the same asset with another source hash are built under one and the same
  tag, \<open>uri:latest\<close>.
\<close>

theorem C8_sourceHash_tag_counterexample:
  "imageTag test_asset = None
   \<and> sourceHash test_asset = ''1234567890abcdef''
   \<and> shell_commands (snd (snd (prepareContainerAsset (sample_host (Some (1, stoptest)) []) ''.''
         test_asset (sample_toolkit (Some (1, stoptest)) test_ecr False) False (0, []))))
     = [[''docker'', ''build'', ''--build-arg'', ''a=b'', ''--build-arg'', ''c=d'',
         ''--tag'', ''uri:latest'', ''/foo'', ''--target'', ''a-target'']]
   \<and> shell_commands (snd (snd (prepareContainerAsset (sample_host (Some (1, stoptest)) []) ''.''
         (test_asset\<lparr>sourceHash := ''fedcba0987654321''\<rparr>)
         (sample_toolkit (Some (1, stoptest)) test_ecr False) False (0, []))))
     = [[''docker'', ''build'', ''--build-arg'', ''a=b'', ''--build-arg'', ''c=d'',
         ''--tag'', ''uri:latest'', ''/foo'', ''--target'', ''a-target'']]"
  by (simp add: model_defs sample_defs)

text \<open>
  Claim C8, amended. Without \<open>imageTag\<close> the tag under which the image is built and
  pushed is the constant \<open>latest\<close> of line 47 and is not derived from \<open>sourceHash\<close>,
  which the function never reads. For an asset without \<open>imageTag\<close> and any source hash
  \<open>h\<close> put in its place: the run makes at least one \<open>shell\<close> call, and every \<open>shell\<close>
  call of the run is the build command with \<open>--tag repositoryUri:latest\<close>, a login,
  \<open>docker push repositoryUri:latest\<close> or the inspection of \<open>repositoryUri:latest\<close>;
  \<open>h\<close> occurs in none of them.
\<close>
theorem C8_tag_independent_of_sourceHash:
  assumes notag: "imageTag asset = None"
    and valid: "truthy (imageNameParameter asset)
                \<or> (truthy (repositoryName asset) \<and> truthy (imageTag asset))"
    and resolve: "prepareEcrRepository toolkitInfo (asset\<lparr>sourceHash := h\<rparr>) w = (Inr ecr, w1)"
    and tr: "tr = snd (snd (prepareContainerAsset H assemblyDir (asset\<lparr>sourceHash := h\<rparr>)
                              toolkitInfo False (w, [])))"
  shows "shell_commands tr \<noteq> []
    \<and> list_all (\<lambda>cmd.
          cmd = [''docker'', ''build'']
                @ concat (map (\<lambda>(k, v). [''--build-arg'', k @ ''='' @ v])
                    (Object_entries
                      (case buildArgs asset of None \<Rightarrow> [] | Some properties \<Rightarrow> properties)))
                @ [''--tag'', ecr_repositoryUri ecr @ '':latest'', contextPath H assemblyDir asset]
                @ (if truthy (target asset) then [''--target'', the (target asset)] else [])
                @ (if truthy (file_asset asset) then [''--file'', the (file_asset asset)] else [])
          \<or> take 2 cmd = [''docker'', ''login'']
          \<or> cmd = [''docker'', ''push'', ecr_repositoryUri ecr @ '':latest'']
          \<or> cmd = [''docker'', ''image'', ''inspect'', ecr_repositoryUri ecr @ '':latest'',
                    ''--format'', ''{{range .RepoDigests}}{{.}}|{{end}}''])
        (shell_commands tr)"
proof -
  let ?a = "asset\<lparr>sourceHash := h\<rparr>"
  let ?ctx = "contextPath H assemblyDir ?a"
  from notag have nocheck: "\<not> (truthy (repositoryName ?a) \<and> truthy (imageTag ?a))"
    by (simp add: truthy_def)
  have noskip: "if truthy (repositoryName ?a) \<and> truthy (imageTag ?a)
      then checkEcrImage toolkitInfo (the (repositoryName ?a)) (the (imageTag ?a)) w1
           = (Inr False, w1)
      else w1 = w1" unfolding if_not_P [OF nocheck] ..
  from valid have valid': "truthy (imageNameParameter ?a)
      \<or> (truthy (repositoryName ?a) \<and> truthy (imageTag ?a))" by simp
  from publish_reaches_build [OF valid' resolve noskip, of H assemblyDir] tr
  obtain pre where pre: "shell_commands pre = []"
    and run: "tr = snd (snd (buildAndPush H ?a toolkitInfo ?ctx ecr (w1, pre)))"
    by auto
  from notag have uri: "imageUri ?a ecr = ecr_repositoryUri ecr @ '':latest''"
    by (simp add: imageUri_def)
  have cmd: "baseCommand ?a ecr ?ctx
      = [''docker'', ''build'']
        @ concat (map (\<lambda>(k, v). [''--build-arg'', k @ ''='' @ v])
            (Object_entries
              (case buildArgs asset of None \<Rightarrow> [] | Some properties \<Rightarrow> properties)))
        @ [''--tag'', ecr_repositoryUri ecr @ '':latest'', contextPath H assemblyDir asset]
        @ (if truthy (target asset) then [''--target'', the (target asset)] else [])
        @ (if truthy (file_asset asset) then [''--file'', the (file_asset asset)] else [])"
    unfolding baseCommand_shape using notag by (simp add: contextPath_def)
  from buildAndPush_first [of H ?a toolkitInfo ?ctx ecr w1 pre] run
  have nonempty: "shell_commands tr \<noteq> []"
    by (auto simp add: shell_commands_append)
  from buildAndPush_commands [OF pre, of ?a ecr ?ctx H toolkitInfo w1]
  show ?thesis unfolding run [symmetric] uri cmd using nonempty by simp
qed

theorem C8_tag_independent_of_sourceHash_witness:
  "shell_commands (snd (snd (prepareContainerAsset (sample_host None sample_digests) ''.''
       (test_asset\<lparr>sourceHash := ''fedcba0987654321''\<rparr>)
       (sample_toolkit None test_ecr False) False (0, []))))
   = [[''docker'', ''build'', ''--build-arg'', ''a=b'', ''--build-arg'', ''c=d'', ''--tag'',
       ''uri:latest'', ''/foo'', ''--target'', ''a-target''],
      [''docker'', ''login'', ''--username'', ''user'', ''--password'', ''secret'',
       ''https://registry''],
      [''docker'', ''push'', ''uri:latest''],
      [''docker'', ''image'', ''inspect'', ''uri:latest'', ''--format'',
       ''{{range .RepoDigests}}{{.}}|{{end}}'']]
   \<and> imageTag test_asset = None"
proof -
  have notag: "imageTag test_asset = None" by (simp add: test_asset_def)
  have valid: "truthy (imageNameParameter test_asset)
      \<or> (truthy (repositoryName test_asset) \<and> truthy (imageTag test_asset))"
    by (simp add: test_asset_def truthy_def)
  have resolve: "prepareEcrRepository (sample_toolkit None test_ecr False)
      (test_asset\<lparr>sourceHash := ''fedcba0987654321''\<rparr>) 0 = (Inr test_ecr, 1)"
    by (simp add: sample_toolkit_def rejects_def)
  have run: "shell_commands (snd (snd (prepareContainerAsset (sample_host None sample_digests) ''.''
       (test_asset\<lparr>sourceHash := ''fedcba0987654321''\<rparr>)
       (sample_toolkit None test_ecr False) False (0, []))))
   = [[''docker'', ''build'', ''--build-arg'', ''a=b'', ''--build-arg'', ''c=d'', ''--tag'',
       ''uri:latest'', ''/foo'', ''--target'', ''a-target''],
      [''docker'', ''login'', ''--username'', ''user'', ''--password'', ''secret'',
       ''https://registry''],
      [''docker'', ''push'', ''uri:latest''],
      [''docker'', ''image'', ''inspect'', ''uri:latest'', ''--format'',
       ''{{range .RepoDigests}}{{.}}|{{end}}'']]"
    by (simp add: model_defs sample_defs trim_def isWhiteSpace_def integrityError_def)
  from C8_tag_independent_of_sourceHash [OF notag valid resolve refl,
      of "sample_host None sample_digests" "''.''"] run notag
  show ?thesis by simp
qed

text \<open>
  An asset for which both addressing modes are present is published without any
  configuration error: here the run goes through all seven calls and returns the digest
  parameter.
\<close>
theorem C9_both_modes_counterexample:
  "truthy (imageNameParameter both_asset) \<and> truthy (repositoryName both_asset)
   \<and> truthy (imageTag both_asset)
   \<and> fst (prepareContainerAsset (sample_host None sample_digests) ''/assembly/dir/root''
            both_asset (sample_toolkit None sample_ecr False) False (0, []))
     = Inr [\<lparr>ParameterKey = Some ''MyParameter'',
              ParameterValue = Some ''repositoryName@sha256:bbb'',
              UsePreviousValue = None\<rparr>]"
  by (simp add: run_all_steps) (simp add: both_asset_def direct_asset_def truthy_def)

text \<open>
  Claim C9, amended. The claim reads the addressing modes as exclusive: an asset with
  \<open>imageNameParameter\<close>, \<open>repositoryName\<close> and \<open>imageTag\<close> all present would be a
  configuration error. Lines 16 to 20 reject only an asset for which neither mode is
  satisfiable. What holds: if at least one mode is satisfiable (in particular if both
  are), validation passes, so with \<open>reuse\<close> the run returns parameters and touches
  nothing, and without \<open>reuse\<close> it goes on to resolve the repository; if neither mode is
  satisfiable the run fails with the configuration error before any call.
\<close>
theorem C9_validation_amended:
  "(if truthy (imageNameParameter asset)
       \<or> (truthy (repositoryName asset) \<and> truthy (imageTag asset))
    then (\<exists>params. prepareContainerAsset H assemblyDir asset toolkitInfo True (w, [])
                     = (Inr params, (w, [])))
         \<and> (\<exists>outcome rest.
               snd (snd (prepareContainerAsset H assemblyDir asset toolkitInfo False (w, [])))
               = Event (PrepareEcrRepository asset) outcome # rest)
    else prepareContainerAsset H assemblyDir asset toolkitInfo reuse (w, [])
         = (Inl configurationError, (w, [])))"
proof (cases "truthy (imageNameParameter asset)
              \<or> (truthy (repositoryName asset) \<and> truthy (imageTag asset))")
  case False
  then have c: "\<not> truthy (imageNameParameter asset)
      \<and> (\<not> truthy (repositoryName asset) \<or> \<not> truthy (imageTag asset))" by blast
  have "prepareContainerAsset H assemblyDir asset toolkitInfo reuse (w, [])
         = (Inl configurationError, (w, []))"
    unfolding prepareContainerAsset_def if_P [OF c] by (simp add: throw_io_def)
  then show ?thesis unfolding if_not_P [OF False] .
next
  case True
  then have c: "\<not> (\<not> truthy (imageNameParameter asset)
      \<and> (\<not> truthy (repositoryName asset) \<or> \<not> truthy (imageTag asset)))" by blast
  have "\<exists>params. prepareContainerAsset H assemblyDir asset toolkitInfo True (w, [])
                     = (Inr params, (w, []))"
    unfolding prepareContainerAsset_def if_not_P [OF c] by (simp add: return_io_def)
  with publish_contacts_registry [OF True, of H assemblyDir toolkitInfo w]
  show ?thesis unfolding if_P [OF True] by blast
qed

theorem C9_validation_amended_witness:
  "(\<exists>params. prepareContainerAsset (sample_host None sample_digests) ''/assembly/dir/root''
       both_asset (sample_toolkit None sample_ecr False) True (0, []) = (Inr params, (0, [])))
   \<and> (\<exists>outcome rest. snd (snd (prepareContainerAsset (sample_host None sample_digests)
         ''/assembly/dir/root'' both_asset (sample_toolkit None sample_ecr False) False (0, [])))
       = Event (PrepareEcrRepository both_asset) outcome # rest)"
  using C9_validation_amended [of both_asset "sample_host None sample_digests"
      "''/assembly/dir/root''" "sample_toolkit None sample_ecr False" 0 True]
  by (simp add: both_asset_def direct_asset_def truthy_def)

text \<open>
  Claim C10. The conversion of line 95 is not limited to the build command. Whatever
  call of the run is rejected with an error whose \<open>code\<close> is \<open>'ENOENT'\<close>, a registry
  call as much as a \<open>shell\<close> call, the caller sees the install-Docker error.
  Lemma \<open>enoent_at_each_step\<close> above shows that each of the seven calls can be that call.
\<close>
theorem C10_enoent_any_step:
  assumes run: "prepareContainerAsset H assemblyDir asset toolkitInfo reuse (w, []) = (r, (w', tr))"
    and failed: "Event c (Some e) \<in> set tr"
    and enoent: "code e = Some ''ENOENT''"
  shows "r = Inl environmentError"
proof -
  from publish_outcome [OF run] obtain r0 where ok: "outcome_ok r0 tr"
    and r: "r = (case r0 of Inl e \<Rightarrow> Inl (handled e) | Inr a \<Rightarrow> Inr a)" by blast
  from failed_event_is_outcome [OF ok failed] r enoent show ?thesis by (simp add: handled_def)
qed

theorem C10_enoent_any_step_witness:
  "prepareContainerAsset (sample_host (Some (0, enoent)) sample_digests) ''/assembly/dir/root''
     both_asset (sample_toolkit (Some (0, enoent)) sample_ecr False) False (0, [])
   = (Inl environmentError, (1, [Event (PrepareEcrRepository both_asset) (Some enoent)]))
   \<and> code enoent = Some ''ENOENT''"
proof -
  have failed: "Event (PrepareEcrRepository both_asset) (Some enoent)
      \<in> set [Event (PrepareEcrRepository both_asset) (Some enoent)]" by simp
  have c: "code enoent = Some ''ENOENT''" by (simp add: enoent_def)
  from C10_enoent_any_step [OF run_resolve_enoent failed c] run_resolve_enoent c
  show ?thesis by simp
qed

end
